theory Spec2Isabelle
  imports Main "HOL-Library.Char_ord"
begin

section \<open>Text, characters and Python values\<close>

text \<open>
  The landing-page editor \<^verbatim>\<open>bot.py\<close> works on Python \<^verbatim>\<open>str\<close> values. They are
  modelled as \<^typ>\<open>string\<close>; a \<^typ>\<open>char\<close> stands for the code point of the same number,
  so the model covers text whose code points are below 256.
\<close>

definition dquote :: char where "dquote = CHR 0x22"
definition bslash :: char where "bslash = CHR 0x5C"
definition newline :: char where "newline = CHR 0x0A"

text \<open>
  Characters are compared by code point. Python's \<^verbatim>\<open>str.isspace\<close>, which is also
  \<^verbatim>\<open>\s\<close> of \<^verbatim>\<open>re\<close> on \<^verbatim>\<open>str\<close> patterns:
\<close>

definition is_space :: "char \<Rightarrow> bool" where
  "is_space c = ((CHR 0x09 \<le> c \<and> c \<le> CHR 0x0D) \<or> (CHR 0x1C \<le> c \<and> c \<le> CHR 0x20)
     \<or> c = CHR 0x85 \<or> c = CHR 0xA0)"

definition is_digit :: "char \<Rightarrow> bool" where
  "is_digit c = (CHR ''0'' \<le> c \<and> c \<le> CHR ''9'')"

definition is_ascii_letter :: "char \<Rightarrow> bool" where
  "is_ascii_letter c = ((CHR ''A'' \<le> c \<and> c \<le> CHR ''Z'') \<or> (CHR ''a'' \<le> c \<and> c \<le> CHR ''z''))"

text \<open>
  A word character of \<^verbatim>\<open>re\<close> (\<^verbatim>\<open>\w\<close>, which decides \<^verbatim>\<open>\b\<close>): alphanumeric in the
  Unicode sense, or the underscore.
\<close>

definition is_word :: "char \<Rightarrow> bool" where
  "is_word c = (is_digit c \<or> is_ascii_letter c \<or> c = CHR ''_'' \<or> c = CHR 0xAA
     \<or> c = CHR 0xB2 \<or> c = CHR 0xB3 \<or> c = CHR 0xB5 \<or> c = CHR 0xB9 \<or> c = CHR 0xBA
     \<or> (CHR 0xBC \<le> c \<and> c \<le> CHR 0xBE) \<or> (CHR 0xC0 \<le> c \<and> c \<le> CHR 0xD6)
     \<or> (CHR 0xD8 \<le> c \<and> c \<le> CHR 0xF6) \<or> CHR 0xF8 \<le> c)"

text \<open>The exceptions the program can raise; the string is what \<^verbatim>\<open>str(e)\<close> gives.\<close>

datatype exn =
    ValueError string
  | FileNotFoundError string
  | ReError string
  | IndexError string
  | TypeError string
  | AttributeError string
  | SyntaxError string
  | OSError string

fun exn_str :: "exn \<Rightarrow> string" where
  "exn_str (ValueError m) = m"
| "exn_str (FileNotFoundError m) = m"
| "exn_str (ReError m) = m"
| "exn_str (IndexError m) = m"
| "exn_str (TypeError m) = m"
| "exn_str (AttributeError m) = m"
| "exn_str (SyntaxError m) = m"
| "exn_str (OSError m) = m"

text \<open>Sequencing: an exception ends the computation.\<close>

fun bind_exn :: "exn + 'a \<Rightarrow> ('a \<Rightarrow> exn + 'b) \<Rightarrow> exn + 'b" where
  "bind_exn (Inl e) f = Inl e"
| "bind_exn (Inr v) f = f v"

text \<open>
  The values a decoded literal is made of. A \<^verbatim>\<open>dict\<close> keeps its keys in insertion
  order; the keys are strings.
\<close>

datatype pyval =
    PNone
  | PBool bool
  | PInt int
  | PStr string
  | PList "pyval list"
  | PDict "(string \<times> pyval) list"

section \<open>Regular expressions of the program\<close>

text \<open>
  Every pattern of \<^verbatim>\<open>bot.py\<close> is a sequence of literal text, quantified character
  classes, an optional character, word boundaries and unnested groups. The matcher below is
  the backtracking matcher of \<^verbatim>\<open>re\<close> for that shape: a greedy quantifier takes the longest
  run first, a lazy one the shortest.
\<close>

datatype cclass =
    Dot        \<comment> \<open>\<^verbatim>\<open>.\<close> without \<^verbatim>\<open>re.DOTALL\<close>\<close>
  | DotAll     \<comment> \<open>\<^verbatim>\<open>.\<close> under \<^verbatim>\<open>re.DOTALL\<close>\<close>
  | Space      \<comment> \<open>\<^verbatim>\<open>\s\<close>\<close>
  | NotQuote   \<comment> \<open>\<^verbatim>\<open>[^"]\<close>\<close>
  | Digit      \<comment> \<open>\<^verbatim>\<open>[0-9]\<close>\<close>
  | IdStart    \<comment> \<open>\<^verbatim>\<open>[a-zA-Z_]\<close>\<close>
  | IdChar     \<comment> \<open>\<^verbatim>\<open>[a-zA-Z0-9_]\<close>\<close>

fun in_class :: "cclass \<Rightarrow> char \<Rightarrow> bool" where
  "in_class Dot c = (c \<noteq> newline)"
| "in_class DotAll c = True"
| "in_class Space c = is_space c"
| "in_class NotQuote c = (c \<noteq> dquote)"
| "in_class Digit c = is_digit c"
| "in_class IdStart c = (is_ascii_letter c \<or> c = CHR ''_'')"
| "in_class IdChar c = (is_ascii_letter c \<or> is_digit c \<or> c = CHR ''_'')"

datatype ritem =
    Lit string     \<comment> \<open>literal text\<close>
  | One cclass     \<comment> \<open>one character of the class\<close>
  | Plus cclass    \<comment> \<open>greedy \<^verbatim>\<open>+\<close>\<close>
  | Star cclass    \<comment> \<open>greedy \<^verbatim>\<open>*\<close>\<close>
  | Lazy cclass    \<comment> \<open>lazy \<^verbatim>\<open>*?\<close>\<close>
  | Opt char       \<comment> \<open>greedy \<^verbatim>\<open>?\<close> on one character\<close>
  | WordB          \<comment> \<open>\<^verbatim>\<open>\b\<close>\<close>
  | GOpen          \<comment> \<open>\<^verbatim>\<open>(\<close>\<close>
  | GClose         \<comment> \<open>\<^verbatim>\<open>)\<close>\<close>

fun strip_prefix :: "string \<Rightarrow> string \<Rightarrow> string option" where
  "strip_prefix [] s = Some s"
| "strip_prefix (c # cs) [] = None"
| "strip_prefix (c # cs) (x # xs) = (if c = x then strip_prefix cs xs else None)"

definition word_opt :: "char option \<Rightarrow> bool" where
  "word_opt p = (case p of None \<Rightarrow> False | Some c \<Rightarrow> is_word c)"

definition at_boundary :: "char option \<Rightarrow> string \<Rightarrow> bool" where
  "at_boundary prev s = (word_opt prev \<noteq> word_opt (case s of [] \<Rightarrow> None | x # xs \<Rightarrow> Some x))"

text \<open>
  \<open>rmatch p prev s i marks\<close> matches the pattern \<open>p\<close> against the text \<open>s\<close> that starts at
  position \<open>i\<close>, after the character \<open>prev\<close>. It returns the end of the first match in
  backtracking order, with the positions where groups opened and closed (latest first).
\<close>

fun rmatch :: "ritem list \<Rightarrow> char option \<Rightarrow> string \<Rightarrow> nat \<Rightarrow> nat list \<Rightarrow> (nat \<times> nat list) option" where
  "rmatch [] prev s i ms = Some (i, ms)"
| "rmatch (Lit l # p) prev s i ms =
     (case strip_prefix l s of
        None \<Rightarrow> None
      | Some s' \<Rightarrow> rmatch p (if l = [] then prev else Some (last l)) s' (i + length l) ms)"
| "rmatch (One c # p) prev [] i ms = None"
| "rmatch (One c # p) prev (x # xs) i ms =
     (if in_class c x then rmatch p (Some x) xs (i + 1) ms else None)"
| "rmatch (Plus c # p) prev [] i ms = None"
| "rmatch (Plus c # p) prev (x # xs) i ms =
     (if in_class c x then rmatch (Star c # p) (Some x) xs (i + 1) ms else None)"
| "rmatch (Star c # p) prev [] i ms = rmatch p prev [] i ms"
| "rmatch (Star c # p) prev (x # xs) i ms =
     (if in_class c x
      then (case rmatch (Star c # p) (Some x) xs (i + 1) ms of
              Some r \<Rightarrow> Some r
            | None \<Rightarrow> rmatch p prev (x # xs) i ms)
      else rmatch p prev (x # xs) i ms)"
| "rmatch (Lazy c # p) prev [] i ms = rmatch p prev [] i ms"
| "rmatch (Lazy c # p) prev (x # xs) i ms =
     (case rmatch p prev (x # xs) i ms of
        Some r \<Rightarrow> Some r
      | None \<Rightarrow> (if in_class c x then rmatch (Lazy c # p) (Some x) xs (i + 1) ms else None))"
| "rmatch (Opt c # p) prev [] i ms = rmatch p prev [] i ms"
| "rmatch (Opt c # p) prev (x # xs) i ms =
     (if c = x
      then (case rmatch p (Some x) xs (i + 1) ms of
              Some r \<Rightarrow> Some r
            | None \<Rightarrow> rmatch p prev (x # xs) i ms)
      else rmatch p prev (x # xs) i ms)"
| "rmatch (WordB # p) prev s i ms = (if at_boundary prev s then rmatch p prev s i ms else None)"
| "rmatch (GOpen # p) prev s i ms = rmatch p prev s i (i # ms)"
| "rmatch (GClose # p) prev s i ms = rmatch p prev s i (i # ms)"

text \<open>A match object: the span of the whole match and the text of each group.\<close>

record rematch =
  m_start :: nat
  m_end :: nat
  m_groups :: "string list"

definition slice :: "string \<Rightarrow> nat \<Rightarrow> nat \<Rightarrow> string" where
  "slice s a b = take (b - a) (drop a s)"

fun spans :: "string \<Rightarrow> nat list \<Rightarrow> string list" where
  "spans text (a # b # ms) = slice text a b # spans text ms"
| "spans text ms = []"

definition mk_match :: "string \<Rightarrow> nat \<Rightarrow> nat \<times> nat list \<Rightarrow> rematch" where
  "mk_match text i r = \<lparr>m_start = i, m_end = fst r, m_groups = spans text (rev (snd r))\<rparr>"

text \<open>\<^verbatim>\<open>m.group(k)\<close>: group 0 is the whole match.\<close>

definition group :: "string \<Rightarrow> rematch \<Rightarrow> nat \<Rightarrow> string" where
  "group text m k = (if k = 0 then slice text (m_start m) (m_end m)
     else if k \<le> length (m_groups m) then m_groups m ! (k - 1) else [])"

text \<open>\<^verbatim>\<open>re.search\<close>: the match at the leftmost position that has one.\<close>

fun search_from :: "ritem list \<Rightarrow> string \<Rightarrow> char option \<Rightarrow> string \<Rightarrow> nat \<Rightarrow> rematch option" where
  "search_from p text prev [] i =
     (case rmatch p prev [] i [] of None \<Rightarrow> None | Some r \<Rightarrow> Some (mk_match text i r))"
| "search_from p text prev (x # xs) i =
     (case rmatch p prev (x # xs) i [] of
        Some r \<Rightarrow> Some (mk_match text i r)
      | None \<Rightarrow> search_from p text (Some x) xs (i + 1))"

definition re_search :: "ritem list \<Rightarrow> string \<Rightarrow> rematch option" where
  "re_search p text = search_from p text None text 0"

section \<open>Substitution: \<^verbatim>\<open>re.sub\<close> and its replacement templates\<close>

text \<open>
  A replacement string that contains a backslash is a template: \<^verbatim>\<open>re\<close> parses it before
  it looks for any match, and raises on a template it cannot parse. The parser below is
  \<^verbatim>\<open>parse_template\<close> of the \<^verbatim>\<open>re\<close> module (as of Python 3.12): \<^verbatim>\<open>\g<n>\<close> and
  \<^verbatim>\<open>\n\<close> with up to two digits refer to a group, three octal digits or a leading \<^verbatim>\<open>0\<close>
  give a character, \<^verbatim>\<open>\a \b \f \n \r \t \v \\\<close> are escapes, a backslash before another
  ASCII letter is an error, and before anything else it stays as it is.
\<close>

datatype tpiece = TLit string | TGroup nat

datatype tmode = TNormal | TName string

definition is_octdigit :: "char \<Rightarrow> bool" where
  "is_octdigit c = (CHR ''0'' \<le> c \<and> c \<le> CHR ''7'')"

definition digit_val :: "char \<Rightarrow> nat" where
  "digit_val c = of_char c - 48"

fun digits_val :: "nat \<Rightarrow> string \<Rightarrow> nat" where
  "digits_val acc [] = acc"
| "digits_val acc (c # cs) = digits_val (acc * 10 + digit_val c) cs"

definition id_start :: "char \<Rightarrow> bool" where
  "id_start c = (is_ascii_letter c \<or> c = CHR ''_'' \<or> c = CHR 0xAA \<or> c = CHR 0xB5
     \<or> c = CHR 0xBA \<or> (CHR 0xC0 \<le> c \<and> c \<le> CHR 0xD6)
     \<or> (CHR 0xD8 \<le> c \<and> c \<le> CHR 0xF6) \<or> CHR 0xF8 \<le> c)"

definition id_continue :: "char \<Rightarrow> bool" where
  "id_continue c = (id_start c \<or> is_digit c \<or> c = CHR 0xB7)"

definition is_identifier :: "string \<Rightarrow> bool" where
  "is_identifier s = (case s of [] \<Rightarrow> False | c # cs \<Rightarrow> id_start c \<and> list_all id_continue cs)"

definition group_ref :: "nat \<Rightarrow> nat \<Rightarrow> exn + tpiece" where
  "group_ref g k = (if k > g then Inl (ReError ''invalid group reference'') else Inr (TGroup k))"

definition named_group :: "nat \<Rightarrow> string \<Rightarrow> exn + tpiece" where
  "named_group g nm =
     (if nm = [] then Inl (ReError ''missing group name'')
      else if list_all is_digit nm then
        (if digits_val 0 nm \<ge> 100 then Inl (ReError ''invalid group reference'')
         else group_ref g (digits_val 0 nm))
      else if is_identifier nm then Inl (IndexError ''unknown group name'')
      else Inl (ReError ''bad character in group name''))"

definition tcons :: "exn + tpiece \<Rightarrow> exn + tpiece list \<Rightarrow> exn + tpiece list" where
  "tcons x r = (case x of Inl e \<Rightarrow> Inl e
     | Inr pc \<Rightarrow> (case r of Inl e \<Rightarrow> Inl e | Inr ps \<Rightarrow> Inr (pc # ps)))"

definition escape_char :: "char \<Rightarrow> char option" where
  "escape_char c =
     (if c = CHR ''a'' then Some (CHR 0x07) else if c = CHR ''b'' then Some (CHR 0x08)
      else if c = CHR ''f'' then Some (CHR 0x0C) else if c = CHR ''n'' then Some (CHR 0x0A)
      else if c = CHR ''r'' then Some (CHR 0x0D) else if c = CHR ''t'' then Some (CHR 0x09)
      else if c = CHR ''v'' then Some (CHR 0x0B) else if c = bslash then Some bslash
      else None)"

definition oct_char :: "string \<Rightarrow> char" where
  "oct_char ds = char_of (foldl (\<lambda>a c. a * 8 + digit_val c) 0 ds mod 256)"

fun parse_template :: "nat \<Rightarrow> tmode \<Rightarrow> string \<Rightarrow> exn + tpiece list" where
  "parse_template g (TName nm) [] = Inl (ReError ''missing >, unterminated name'')"
| "parse_template g (TName nm) (c # s) =
     (if c = CHR ''>'' then tcons (named_group g nm) (parse_template g TNormal s)
      else parse_template g (TName (nm @ [c])) s)"
| "parse_template g TNormal [] = Inr []"
| "parse_template g TNormal [c] =
     (if c = bslash then Inl (ReError ''bad escape (end of pattern)'') else Inr [TLit [c]])"
| "parse_template g TNormal (c # d # s) =
     (if c \<noteq> bslash then tcons (Inr (TLit [c])) (parse_template g TNormal (d # s))
      else if d = CHR ''g'' then
        (case s of
           [] \<Rightarrow> Inl (ReError ''missing <'')
         | e # s' \<Rightarrow> if e = CHR ''<'' then parse_template g (TName []) s'
                     else Inl (ReError ''missing <''))
      else if d = CHR ''0'' then
        (case s of
           [] \<Rightarrow> Inr [TLit [oct_char [d]]]
         | e # s' \<Rightarrow>
             if is_octdigit e then
               (case s' of
                  [] \<Rightarrow> Inr [TLit [oct_char [d, e]]]
                | f # s'' \<Rightarrow>
                    if is_octdigit f
                    then tcons (Inr (TLit [oct_char [d, e, f]])) (parse_template g TNormal s'')
                    else tcons (Inr (TLit [oct_char [d, e]])) (parse_template g TNormal (f # s'')))
             else tcons (Inr (TLit [oct_char [d]])) (parse_template g TNormal (e # s')))
      else if is_digit d then
        (case s of
           [] \<Rightarrow> tcons (group_ref g (digit_val d)) (Inr [])
         | e # s' \<Rightarrow>
             if is_digit e then
               (case s' of
                  [] \<Rightarrow> tcons (group_ref g (digits_val 0 [d, e])) (Inr [])
                | f # s'' \<Rightarrow>
                    if is_octdigit d \<and> is_octdigit e \<and> is_octdigit f then
                      (if foldl (\<lambda>a c. a * 8 + digit_val c) 0 [d, e, f] > 255
                       then Inl (ReError ''octal escape value outside of range 0-0o377'')
                       else tcons (Inr (TLit [oct_char [d, e, f]])) (parse_template g TNormal s''))
                    else tcons (group_ref g (digits_val 0 [d, e]))
                           (parse_template g TNormal (f # s'')))
             else tcons (group_ref g (digit_val d)) (parse_template g TNormal (e # s')))
      else (case escape_char d of
              Some x \<Rightarrow> tcons (Inr (TLit [x])) (parse_template g TNormal s)
            | None \<Rightarrow> if is_ascii_letter d then Inl (ReError ''bad escape'')
                      else tcons (Inr (TLit [c, d])) (parse_template g TNormal s)))"

fun expand :: "tpiece list \<Rightarrow> string \<Rightarrow> rematch \<Rightarrow> string" where
  "expand [] text m = []"
| "expand (TLit l # ps) text m = l @ expand ps text m"
| "expand (TGroup k # ps) text m = group text m k @ expand ps text m"

text \<open>
  The scan of \<^verbatim>\<open>re.sub\<close>: every match, from left to right and without overlap, is
  replaced by what \<open>f\<close> makes of it. Each pattern of the program contains literal text, so
  no match is empty; the last branch is there for totality only.
\<close>

function sub_from :: "ritem list \<Rightarrow> (rematch \<Rightarrow> string) \<Rightarrow> string \<Rightarrow> char option \<Rightarrow> string \<Rightarrow> nat \<Rightarrow> string" where
  "sub_from p f text prev [] i =
     (case rmatch p prev [] i [] of None \<Rightarrow> [] | Some r \<Rightarrow> f (mk_match text i r))"
| "sub_from p f text prev (x # xs) i =
     (case rmatch p prev (x # xs) i [] of
        None \<Rightarrow> x # sub_from p f text (Some x) xs (i + 1)
      | Some r \<Rightarrow>
          f (mk_match text i r) @
          (if fst r > i
           then sub_from p f text (Some (last (take (fst r - i) (x # xs))))
                  (drop (fst r - i) (x # xs)) (fst r)
           else x # sub_from p f text (Some x) xs (i + 1)))"
  by pat_completeness auto
termination
  by (relation "measure (\<lambda>(p, f, text, prev, s, i). length s)") auto

definition ngroups :: "ritem list \<Rightarrow> nat" where
  "ngroups p = length (filter (\<lambda>x. x = GOpen) p)"

text \<open>\<^verbatim>\<open>re.sub(pattern, repl, text)\<close> with a string \<^verbatim>\<open>repl\<close>.\<close>

definition re_sub :: "ritem list \<Rightarrow> string \<Rightarrow> string \<Rightarrow> exn + string" where
  "re_sub p repl text =
     (case parse_template (ngroups p) TNormal repl of
        Inl e \<Rightarrow> Inl e
      | Inr t \<Rightarrow> Inr (sub_from p (expand t text) text None text 0))"

text \<open>\<^verbatim>\<open>re.sub(pattern, function, text)\<close>.\<close>

definition re_sub_fn :: "ritem list \<Rightarrow> (rematch \<Rightarrow> string) \<Rightarrow> string \<Rightarrow> string" where
  "re_sub_fn p f text = sub_from p f text None text 0"

section \<open>Python values as text\<close>

definition squote :: char where "squote = CHR 0x27"

fun join :: "string \<Rightarrow> string list \<Rightarrow> string" where
  "join sep [] = []"
| "join sep [x] = x"
| "join sep (x # y # ys) = x @ sep @ join sep (y # ys)"

definition digit_char :: "nat \<Rightarrow> char" where
  "digit_char n = char_of (48 + n)"

function show_nat :: "nat \<Rightarrow> string" where
  "show_nat n = (if n < 10 then [digit_char n] else show_nat (n div 10) @ [digit_char (n mod 10)])"
  by pat_completeness auto
termination
  by (relation "measure id") auto

declare show_nat.simps [simp del]

definition show_int :: "int \<Rightarrow> string" where
  "show_int k = (if k < 0 then CHR ''-'' # show_nat (nat (- k)) else show_nat (nat k))"

definition hex_char :: "nat \<Rightarrow> char" where
  "hex_char n = (if n < 10 then char_of (48 + n) else char_of (87 + n))"

definition hex_escape :: "char \<Rightarrow> string" where
  "hex_escape c = [bslash, CHR ''x'', hex_char (of_char c div 16), hex_char (of_char c mod 16)]"

text \<open>\<^verbatim>\<open>repr\<close> of a string: the quote that needs no escape, non-printable characters escaped.\<close>

definition repr_char :: "char \<Rightarrow> char \<Rightarrow> string" where
  "repr_char q c =
     (if c = q \<or> c = bslash then [bslash, c]
      else if c = CHR 0x09 then [bslash, CHR ''t'']
      else if c = CHR 0x0A then [bslash, CHR ''n'']
      else if c = CHR 0x0D then [bslash, CHR ''r'']
      else if c < CHR 0x20 \<or> (CHR 0x7F \<le> c \<and> c \<le> CHR 0xA0) \<or> c = CHR 0xAD then hex_escape c
      else [c])"

definition repr_str :: "string \<Rightarrow> string" where
  "repr_str s = (let q = (if squote \<in> set s \<and> dquote \<notin> set s then dquote else squote)
     in q # concat (map (repr_char q) s) @ [q])"

fun py_repr :: "pyval \<Rightarrow> string" where
  "py_repr PNone = ''None''"
| "py_repr (PBool b) = (if b then ''True'' else ''False'')"
| "py_repr (PInt k) = show_int k"
| "py_repr (PStr s) = repr_str s"
| "py_repr (PList xs) = ''['' @ join '', '' (map py_repr xs) @ '']''"
| "py_repr (PDict kvs) =
     ''{'' @ join '', '' (map (\<lambda>kv. repr_str (fst kv) @ '': '' @ py_repr (snd kv)) kvs) @ ''}''"

text \<open>\<^verbatim>\<open>str(v)\<close>, which is also what an f-string field \<^verbatim>\<open>{v}\<close> inserts.\<close>

fun py_str :: "pyval \<Rightarrow> string" where
  "py_str (PStr s) = s"
| "py_str v = py_repr v"

text \<open>\<^verbatim>\<open>bool(v)\<close>.\<close>

fun truthy :: "pyval \<Rightarrow> bool" where
  "truthy PNone = False"
| "truthy (PBool b) = b"
| "truthy (PInt k) = (k \<noteq> 0)"
| "truthy (PStr s) = (s \<noteq> [])"
| "truthy (PList xs) = (xs \<noteq> [])"
| "truthy (PDict kvs) = (kvs \<noteq> [])"

text \<open>\<^verbatim>\<open>for x in v\<close>: a string yields its characters, a dict its keys.\<close>

fun py_iter :: "pyval \<Rightarrow> exn + pyval list" where
  "py_iter (PList xs) = Inr xs"
| "py_iter (PStr s) = Inr (map (\<lambda>c. PStr [c]) s)"
| "py_iter (PDict kvs) = Inr (map (\<lambda>kv. PStr (fst kv)) kvs)"
| "py_iter v = Inl (TypeError ''object is not iterable'')"

text \<open>\<^verbatim>\<open>v.get(key, default)\<close>: only a dict has the method.\<close>

fun py_get :: "pyval \<Rightarrow> string \<Rightarrow> pyval \<Rightarrow> exn + pyval" where
  "py_get (PDict kvs) k d = Inr (case map_of kvs k of None \<Rightarrow> d | Some v \<Rightarrow> v)"
| "py_get v k d = Inl (AttributeError ''object has no attribute get'')"

section \<open>The record literal codec\<close>

subsection \<open>\<^verbatim>\<open>python_apps_to_js\<close>\<close>

definition py_bool :: "bool \<Rightarrow> string" where
  "py_bool v = (if v then ''true'' else ''false'')"

definition py_list :: "pyval \<Rightarrow> exn + string" where
  "py_list lst = (case py_iter lst of
     Inl e \<Rightarrow> Inl e
   | Inr xs \<Rightarrow> Inr (''['' @ join '', '' (map (\<lambda>x. dquote # py_str x @ [dquote]) xs) @ '']''))"

text \<open>The lines the loop body appends for one \<^verbatim>\<open>app\<close>.\<close>

definition app_lines :: "pyval \<Rightarrow> exn + string list" where
  "app_lines app =
     bind_exn (py_get app ''name'' (PStr [])) (\<lambda>name.
     bind_exn (py_get app ''icon'' (PStr [])) (\<lambda>icon.
     bind_exn (py_get app ''locker_id'' (PStr [])) (\<lambda>locker_id.
     bind_exn (py_get app ''platforms'' (PList [])) (\<lambda>platforms.
     bind_exn (py_list platforms) (\<lambda>plist.
     bind_exn (py_get app ''trending'' (PBool False)) (\<lambda>trending.
     bind_exn (py_get app ''featured'' (PBool False)) (\<lambda>featured.
       Inr [''  {'',
            ''    name: '' @ [dquote] @ py_str name @ [dquote] @ '','',
            ''    icon: '' @ [dquote] @ py_str icon @ [dquote] @ '','',
            ''    locker_id: '' @ [dquote] @ py_str locker_id @ [dquote] @ '','',
            ''    platforms: '' @ plist @ '','',
            ''    trending: '' @ py_bool (truthy trending) @ '','',
            ''    featured: '' @ py_bool (truthy featured),
            ''  },''])))))))"

fun apps_lines :: "pyval list \<Rightarrow> exn + string list" where
  "apps_lines [] = Inr []"
| "apps_lines (app # apps) =
     (case app_lines app of
        Inl e \<Rightarrow> Inl e
      | Inr ls \<Rightarrow> (case apps_lines apps of Inl e \<Rightarrow> Inl e | Inr rest \<Rightarrow> Inr (ls @ rest)))"

definition python_apps_to_js :: "pyval \<Rightarrow> exn + string" where
  "python_apps_to_js apps =
     (case py_iter apps of
        Inl e \<Rightarrow> Inl e
      | Inr xs \<Rightarrow> (case apps_lines xs of
          Inl e \<Rightarrow> Inl e
        | Inr ls \<Rightarrow> Inr (join [newline] ([''const APPS = [''] @ ls @ [''];'']))))"

subsection \<open>\<^verbatim>\<open>js_apps_to_python\<close>\<close>

text \<open>
  Three library functions decide what a text decodes to: \<^verbatim>\<open>json5.loads\<close> of the optional
  package \<^verbatim>\<open>json5\<close> (\<open>None\<close> when the package is not installed), the built-in \<^verbatim>\<open>eval\<close>
  called with empty builtins, and \<^verbatim>\<open>json.loads\<close>. They are parameters of the model, so
  that what is proved of the program holds whatever they compute.
\<close>

record libs =
  json5_loads :: "(string \<Rightarrow> exn + pyval) option"
  py_eval :: "string \<Rightarrow> exn + pyval"
  json_loads :: "string \<Rightarrow> exn + pyval"

definition strip :: "string \<Rightarrow> string" where
  "strip s = rev (dropWhile is_space (rev (dropWhile is_space s)))"

definition true_pat :: "ritem list" where
  "true_pat = [WordB, Lit ''true'', WordB]"

definition false_pat :: "ritem list" where
  "false_pat = [WordB, Lit ''false'', WordB]"

definition null_pat :: "ritem list" where
  "null_pat = [WordB, Lit ''null'', WordB]"

text \<open>\<^verbatim>\<open>(\b[a-zA-Z_][a-zA-Z0-9_]*\b)\s*:\<close>\<close>

definition key_pat :: "ritem list" where
  "key_pat = [GOpen, WordB, One IdStart, Star IdChar, WordB, GClose, Star Space, Lit '':'']"

definition quote_keys :: "string \<Rightarrow> rematch \<Rightarrow> string" where
  "quote_keys text m = [dquote] @ group text m 1 @ [dquote] @ '':''"

text \<open>The normalisation pass of the fallback: what is handed to \<^verbatim>\<open>eval\<close>.\<close>

definition normalise :: "string \<Rightarrow> string" where
  "normalise js_array_str =
     (let s = strip js_array_str;
          s = re_sub_fn true_pat (\<lambda>m. ''True'') s;
          s = re_sub_fn false_pat (\<lambda>m. ''False'') s;
          s = re_sub_fn null_pat (\<lambda>m. ''None'') s
      in re_sub_fn key_pat (quote_keys s) s)"

definition parse_error_prefix :: string where
  "parse_error_prefix = ''Could not parse APPS array. Please install `json5`. Error: ''"

definition js_apps_to_python :: "libs \<Rightarrow> string \<Rightarrow> exn + pyval" where
  "js_apps_to_python L js_array_str =
     (case (case json5_loads L of
              None \<Rightarrow> None
            | Some loads \<Rightarrow> (case loads js_array_str of Inl e \<Rightarrow> None | Inr v \<Rightarrow> Some v)) of
        Some v \<Rightarrow> Inr v
      | None \<Rightarrow>
          (case py_eval L (normalise js_array_str) of
             Inr v \<Rightarrow> Inr v
           | Inl e \<Rightarrow> Inl (ValueError (parse_error_prefix @ exn_str e))))"

subsection \<open>An evaluator for literal displays\<close>

text \<open>
  To run the fallback on concrete texts, \<open>literal_eval\<close> evaluates the expressions that
  are made of string literals without prefix (adjacent ones concatenated), decimal integers,
  \<^verbatim>\<open>True\<close>, \<^verbatim>\<open>False\<close>, \<^verbatim>\<open>None\<close>, list displays, dict displays with string keys, and the
  binary operator \<^verbatim>\<open>+\<close>, as Python's \<^verbatim>\<open>eval\<close> evaluates them. Python accepts more than
  that; on a text outside this fragment \<open>literal_eval\<close> answers with a syntax error and
  stands for nothing. It is used at texts of the fragment only.
\<close>

datatype token =
    KLBrack | KRBrack | KLBrace | KRBrace | KComma | KColon | KPlus
  | KStr string | KInt nat | KName string | KNewline

datatype lexmode = LNormal | LNum string | LName string | LStr char string | LEsc char string

definition tok_cons :: "token \<Rightarrow> exn + token list \<Rightarrow> exn + token list" where
  "tok_cons t r = (case r of Inl e \<Rightarrow> Inl e | Inr ts \<Rightarrow> Inr (t # ts))"

definition syntax_error :: "exn + 'a" where
  "syntax_error = Inl (SyntaxError ''invalid syntax'')"

definition punct :: "char \<Rightarrow> token option" where
  "punct c =
     (if c = CHR ''['' then Some KLBrack else if c = CHR '']'' then Some KRBrack
      else if c = CHR ''{'' then Some KLBrace else if c = CHR ''}'' then Some KRBrace
      else if c = CHR '','' then Some KComma else if c = CHR '':'' then Some KColon
      else if c = CHR ''+'' then Some KPlus
      else if c = newline \<or> c = CHR 0x0D then Some KNewline
      else None)"

definition int_token :: "string \<Rightarrow> exn + token" where
  "int_token ds = (if length ds > 1 \<and> hd ds = CHR ''0'' \<and> \<not> list_all (\<lambda>c. c = CHR ''0'') ds
     then syntax_error else Inr (KInt (digits_val 0 ds)))"

definition string_escape :: "char \<Rightarrow> char option" where
  "string_escape c = (if c = squote \<or> c = dquote then Some c else escape_char c)"

definition mode_rank :: "lexmode \<Rightarrow> nat" where
  "mode_rank m = (case m of LNormal \<Rightarrow> 0 | _ \<Rightarrow> 1)"

function lex :: "lexmode \<Rightarrow> string \<Rightarrow> exn + token list" where
  "lex LNormal [] = Inr []"
| "lex LNormal (c # s) =
     (case punct c of
        Some t \<Rightarrow> tok_cons t (lex LNormal s)
      | None \<Rightarrow>
          if c = dquote \<or> c = squote then lex (LStr c []) s
          else if is_digit c then lex (LNum [c]) s
          else if in_class IdStart c then lex (LName [c]) s
          else if c = CHR '' '' \<or> c = CHR 0x09 \<or> c = CHR 0x0C then lex LNormal s
          else syntax_error)"
| "lex (LNum ds) [] = bind_exn (int_token ds) (\<lambda>t. Inr [t])"
| "lex (LNum ds) (c # s) =
     (if is_digit c then lex (LNum (ds @ [c])) s
      else if in_class IdChar c \<or> c = CHR ''.'' then syntax_error
      else bind_exn (int_token ds) (\<lambda>t. tok_cons t (lex LNormal (c # s))))"
| "lex (LName nm) [] = Inr [KName nm]"
| "lex (LName nm) (c # s) =
     (if in_class IdChar c then lex (LName (nm @ [c])) s
      else if c = dquote \<or> c = squote then syntax_error
      else tok_cons (KName nm) (lex LNormal (c # s)))"
| "lex (LStr q acc) [] = Inl (SyntaxError ''unterminated string literal'')"
| "lex (LStr q acc) (c # s) =
     (if c = q then tok_cons (KStr acc) (lex LNormal s)
      else if c = bslash then lex (LEsc q acc) s
      else if c = newline \<or> c = CHR 0x0D then Inl (SyntaxError ''unterminated string literal'')
      else lex (LStr q (acc @ [c])) s)"
| "lex (LEsc q acc) [] = Inl (SyntaxError ''unterminated string literal'')"
| "lex (LEsc q acc) (c # s) =
     (case string_escape c of
        Some x \<Rightarrow> lex (LStr q (acc @ [x])) s
      | None \<Rightarrow> syntax_error)"
  by pat_completeness auto
termination
  by (relation "measure (\<lambda>(m, s). 2 * length s + mode_rank m)") (auto simp: mode_rank_def)

text \<open>Adjacent string literals are one literal.\<close>

fun merge_strs :: "token list \<Rightarrow> token list" where
  "merge_strs (KStr a # KStr b # ts) = merge_strs (KStr (a @ b) # ts)"
| "merge_strs (t # ts) = t # merge_strs ts"
| "merge_strs [] = []"

datatype pyexpr =
    EConst pyval
  | EList "pyexpr list"
  | EDict "(pyexpr \<times> pyexpr) list"
  | EAdd pyexpr pyexpr

text \<open>
  The parser reads the tokens from left to right. \<open>acc\<close> is the expression read so far at
  the current nesting level, \<open>pend\<close> says that a \<^verbatim>\<open>+\<close> waits for its right operand, and a
  frame keeps an open display with the \<open>acc\<close> and \<open>pend\<close> around it.
\<close>

datatype frame =
    FList "pyexpr list" "pyexpr option" bool
  | FDict "(pyexpr \<times> pyexpr) list" "pyexpr option" "pyexpr option" bool

definition operand :: "pyexpr \<Rightarrow> pyexpr option \<Rightarrow> bool \<Rightarrow> pyexpr option" where
  "operand e acc pend =
     (case acc of
        None \<Rightarrow> if pend then None else Some e
      | Some a \<Rightarrow> if pend then Some (EAdd a e) else None)"

definition name_value :: "string \<Rightarrow> pyval option" where
  "name_value nm =
     (if nm = ''True'' then Some (PBool True) else if nm = ''False'' then Some (PBool False)
      else if nm = ''None'' then Some PNone else None)"

fun parse :: "frame list \<Rightarrow> pyexpr option \<Rightarrow> bool \<Rightarrow> token list \<Rightarrow> exn + pyexpr" where
  "parse st acc pend [] =
     (case (st, acc, pend) of ([], Some e, False) \<Rightarrow> Inr e | _ \<Rightarrow> syntax_error)"
| "parse st acc pend (KStr x # ts) =
     (case operand (EConst (PStr x)) acc pend of
        None \<Rightarrow> syntax_error | Some e \<Rightarrow> parse st (Some e) False ts)"
| "parse st acc pend (KInt n # ts) =
     (case operand (EConst (PInt (int n))) acc pend of
        None \<Rightarrow> syntax_error | Some e \<Rightarrow> parse st (Some e) False ts)"
| "parse st acc pend (KName nm # ts) =
     (case name_value nm of
        None \<Rightarrow> syntax_error
      | Some v \<Rightarrow> (case operand (EConst v) acc pend of
          None \<Rightarrow> syntax_error | Some e \<Rightarrow> parse st (Some e) False ts))"
| "parse st acc pend (KPlus # ts) =
     (case (acc, pend) of (Some e, False) \<Rightarrow> parse st acc True ts | _ \<Rightarrow> syntax_error)"
| "parse st acc pend (KLBrack # ts) =
     (if acc = None \<or> pend then parse (FList [] acc pend # st) None False ts else syntax_error)"
| "parse st acc pend (KLBrace # ts) =
     (if acc = None \<or> pend then parse (FDict [] None acc pend # st) None False ts
      else syntax_error)"
| "parse st acc pend (KComma # ts) =
     (case (st, acc, pend) of
        (FList xs oacc opend # st', Some e, False) \<Rightarrow>
          parse (FList (xs @ [e]) oacc opend # st') None False ts
      | (FDict kvs (Some k) oacc opend # st', Some e, False) \<Rightarrow>
          parse (FDict (kvs @ [(k, e)]) None oacc opend # st') None False ts
      | _ \<Rightarrow> syntax_error)"
| "parse st acc pend (KColon # ts) =
     (case (st, acc, pend) of
        (FDict kvs None oacc opend # st', Some e, False) \<Rightarrow>
          parse (FDict kvs (Some e) oacc opend # st') None False ts
      | _ \<Rightarrow> syntax_error)"
| "parse st acc pend (KRBrack # ts) =
     (case (st, pend) of
        (FList xs oacc opend # st', False) \<Rightarrow>
          (case operand (EList (case acc of None \<Rightarrow> xs | Some e \<Rightarrow> xs @ [e])) oacc opend of
             None \<Rightarrow> syntax_error | Some e' \<Rightarrow> parse st' (Some e') False ts)
      | _ \<Rightarrow> syntax_error)"
| "parse st acc pend (KRBrace # ts) =
     (case (st, acc, pend) of
        (FDict kvs None oacc opend # st', None, False) \<Rightarrow>
          (case operand (EDict kvs) oacc opend of
             None \<Rightarrow> syntax_error | Some e' \<Rightarrow> parse st' (Some e') False ts)
      | (FDict kvs (Some k) oacc opend # st', Some e, False) \<Rightarrow>
          (case operand (EDict (kvs @ [(k, e)])) oacc opend of
             None \<Rightarrow> syntax_error | Some e' \<Rightarrow> parse st' (Some e') False ts)
      | _ \<Rightarrow> syntax_error)"
| "parse st acc pend (KNewline # ts) =
     (if st = [] then
        (case (acc, pend, list_all (\<lambda>t. t = KNewline) ts) of
           (Some e, False, True) \<Rightarrow> Inr e | _ \<Rightarrow> syntax_error)
      else parse st acc pend ts)"

fun dict_set :: "(string \<times> pyval) list \<Rightarrow> string \<Rightarrow> pyval \<Rightarrow> (string \<times> pyval) list" where
  "dict_set [] k v = [(k, v)]"
| "dict_set ((k', v') # kvs) k v = (if k' = k then (k, v) # kvs else (k', v') # dict_set kvs k v)"

fun py_add :: "pyval \<Rightarrow> pyval \<Rightarrow> exn + pyval" where
  "py_add (PStr a) (PStr b) = Inr (PStr (a @ b))"
| "py_add (PList a) (PList b) = Inr (PList (a @ b))"
| "py_add (PInt a) (PInt b) = Inr (PInt (a + b))"
| "py_add (PInt a) (PBool b) = Inr (PInt (a + (if b then 1 else 0)))"
| "py_add (PBool a) (PInt b) = Inr (PInt ((if a then 1 else 0) + b))"
| "py_add (PBool a) (PBool b) = Inr (PInt ((if a then 1 else 0) + (if b then 1 else 0)))"
| "py_add a b = Inl (TypeError ''unsupported operand type(s) for +'')"

function eval_expr :: "pyexpr \<Rightarrow> exn + pyval"
  and eval_list :: "pyexpr list \<Rightarrow> exn + pyval list"
  and eval_pairs :: "(pyexpr \<times> pyexpr) list \<Rightarrow> (string \<times> pyval) list \<Rightarrow> exn + (string \<times> pyval) list" where
  "eval_expr (EConst v) = Inr v"
| "eval_expr (EList es) = bind_exn (eval_list es) (\<lambda>vs. Inr (PList vs))"
| "eval_expr (EDict kvs) = bind_exn (eval_pairs kvs []) (\<lambda>d. Inr (PDict d))"
| "eval_expr (EAdd a b) =
     bind_exn (eval_expr a) (\<lambda>x. bind_exn (eval_expr b) (\<lambda>y. py_add x y))"
| "eval_list [] = Inr []"
| "eval_list (e # es) =
     bind_exn (eval_expr e) (\<lambda>v. bind_exn (eval_list es) (\<lambda>vs. Inr (v # vs)))"
| "eval_pairs [] d = Inr d"
| "eval_pairs ((ke, ve) # kvs) d =
     bind_exn (eval_expr ke) (\<lambda>k. bind_exn (eval_expr ve) (\<lambda>v.
       case k of
         PStr key \<Rightarrow> eval_pairs kvs (dict_set d key v)
       | PList xs \<Rightarrow> Inl (TypeError ''unhashable type'')
       | PDict xs \<Rightarrow> Inl (TypeError ''unhashable type'')
       | _ \<Rightarrow> syntax_error))"
  by pat_completeness auto
termination
  by (relation "measure (\<lambda>x. case x of
        Inl e \<Rightarrow> size e
      | Inr (Inl es) \<Rightarrow> size_list size es
      | Inr (Inr (kvs, d)) \<Rightarrow> size_list (size_prod size size) kvs)") auto

definition literal_eval :: "string \<Rightarrow> exn + pyval" where
  "literal_eval s =
     (if CHR 0x00 \<in> set s then syntax_error
      else bind_exn (lex LNormal s) (\<lambda>ts.
           bind_exn (parse [] None False (merge_strs ts)) eval_expr))"

section \<open>The document model: \<^verbatim>\<open>LPData\<close>\<close>

record lpdata =
  html :: string
  logo_src :: string
  h1_title :: string
  tagline :: string
  meta_title :: string
  meta_desc :: string
  meta_keywords :: string
  og_image :: string
  twitter_image :: string
  cpab_it :: string
  cpab_key :: string
  apps :: pyval

definition LPData_init :: lpdata where
  "LPData_init = \<lparr>html = [], logo_src = [], h1_title = [], tagline = [], meta_title = [],
     meta_desc = [], meta_keywords = [], og_image = [], twitter_image = [],
     cpab_it = [], cpab_key = [], apps = PList []\<rparr>"

definition INDEX_FILE :: string where
  "INDEX_FILE = ''index.html''"

subsection \<open>The markers that \<^verbatim>\<open>load\<close> searches for\<close>

text \<open>\<^verbatim>\<open><img\s+class="logo"\s+src="([^"]+)"\<close>\<close>

definition logo_pat :: "ritem list" where
  \<open>logo_pat = [Lit ''<img'', Plus Space, Lit ''class="logo"'', Plus Space, Lit ''src="'',
     GOpen, Plus NotQuote, GClose, Lit ''"'']\<close>

text \<open>\<^verbatim>\<open><h1>(.*?)</h1>\<close>; \<^verbatim>\<open>regex_search\<close> passes \<^verbatim>\<open>re.DOTALL\<close>.\<close>

definition h1_pat :: "ritem list" where
  "h1_pat = [Lit ''<h1>'', GOpen, Lazy DotAll, GClose, Lit ''</h1>'']"

text \<open>\<^verbatim>\<open><p class="tagline">(.*?)</p>\<close>\<close>

definition tagline_pat :: "ritem list" where
  \<open>tagline_pat = [Lit ''<p class="tagline">'', GOpen, Lazy DotAll, GClose, Lit ''</p>'']\<close>

text \<open>\<^verbatim>\<open><title>(.*?)</title>\<close>\<close>

definition title_pat :: "ritem list" where
  "title_pat = [Lit ''<title>'', GOpen, Lazy DotAll, GClose, Lit ''</title>'']"

text \<open>
  \<^verbatim>\<open><meta\s+ATTR="VALUE"\s+content="(.*?)"\<close>, where \<^verbatim>\<open>ATTR="VALUE"\<close> is
  \<^verbatim>\<open>name="description"\<close>, \<^verbatim>\<open>name="keywords"\<close>, \<^verbatim>\<open>property="og:image"\<close> or
  \<^verbatim>\<open>name="twitter:image"\<close>.
\<close>

definition meta_pat :: "string \<Rightarrow> ritem list" where
  \<open>meta_pat attr = [Lit ''<meta'', Plus Space, Lit attr, Plus Space, Lit ''content="'',
     GOpen, Lazy DotAll, GClose, Lit ''"'']\<close>

definition desc_attr :: string where \<open>desc_attr = ''name="description"''\<close>
definition keywords_attr :: string where \<open>keywords_attr = ''name="keywords"''\<close>
definition og_attr :: string where \<open>og_attr = ''property="og:image"''\<close>
definition twitter_attr :: string where \<open>twitter_attr = ''name="twitter:image"''\<close>

text \<open>\<^verbatim>\<open>var\s+CPABUILDSETTINGS\s*=\s*({.*?});\<close>\<close>

definition cpab_pat :: "ritem list" where
  "cpab_pat = [Lit ''var'', Plus Space, Lit ''CPABUILDSETTINGS'', Star Space, Lit ''='',
     Star Space, GOpen, Lit ''{'', Lazy DotAll, Lit ''}'', GClose, Lit '';'']"

text \<open>\<^verbatim>\<open>"?it"?\s*:\s*([0-9]+)\<close> and \<^verbatim>\<open>"?key"?\s*:\s*"([^"]+)"\<close>\<close>

definition it_pat :: "ritem list" where
  "it_pat = [Opt dquote, Lit ''it'', Opt dquote, Star Space, Lit '':'', Star Space,
     GOpen, Plus Digit, GClose]"

definition key_sub_pat :: "ritem list" where
  \<open>key_sub_pat = [Opt dquote, Lit ''key'', Opt dquote, Star Space, Lit '':'', Star Space,
     Lit ''"'', GOpen, Plus NotQuote, GClose, Lit ''"'']\<close>

text \<open>\<^verbatim>\<open>const\s+APPS\s*=\s*\[(.*?)\];\<close>\<close>

definition apps_pat :: "ritem list" where
  "apps_pat = [Lit ''const'', Plus Space, Lit ''APPS'', Star Space, Lit ''='', Star Space,
     Lit ''['', GOpen, Lazy DotAll, GClose, Lit ''];'']"

subsection \<open>\<^verbatim>\<open>LPData.load\<close>\<close>

text \<open>\<^verbatim>\<open>m = regex_search(pattern, text)\<close> followed by \<^verbatim>\<open>m.group(1)\<close>.\<close>

definition search_group :: "ritem list \<Rightarrow> string \<Rightarrow> string option" where
  "search_group p text = map_option (\<lambda>m. group text m 1) (re_search p text)"

text \<open>The file system: the text of each file that exists.\<close>

type_synonym files = "string \<rightharpoonup> string"

text \<open>
  The settings object: \<^verbatim>\<open>json.loads\<close> first, and the two sub-patterns when anything in
  the \<^verbatim>\<open>try\<close> block raises.
\<close>

definition load_settings :: "libs \<Rightarrow> string \<Rightarrow> lpdata \<Rightarrow> lpdata" where
  "load_settings L g self =
     (case bind_exn (json_loads L g) (\<lambda>obj.
           bind_exn (py_get obj ''it'' (PStr [])) (\<lambda>it.
           bind_exn (py_get obj ''key'' (PStr [])) (\<lambda>key. Inr (py_str it, py_str key)))) of
        Inr (it, key) \<Rightarrow> self\<lparr>cpab_it := it, cpab_key := key\<rparr>
      | Inl e \<Rightarrow>
          (let self = (case search_group it_pat g of
                         Some v \<Rightarrow> self\<lparr>cpab_it := v\<rparr> | None \<Rightarrow> self)
           in (case search_group key_sub_pat g of
                 Some v \<Rightarrow> self\<lparr>cpab_key := v\<rparr> | None \<Rightarrow> self)))"

text \<open>The fields that \<^verbatim>\<open>load\<close> extracts before it reaches the array literal.\<close>

definition load_fields :: "libs \<Rightarrow> string \<Rightarrow> lpdata \<Rightarrow> lpdata" where
  "load_fields L text self =
     (let self = self\<lparr>html := text\<rparr>;
          self = (case search_group logo_pat text of
                    Some v \<Rightarrow> self\<lparr>logo_src := v\<rparr> | None \<Rightarrow> self);
          self = (case search_group h1_pat text of
                    Some v \<Rightarrow> self\<lparr>h1_title := v\<rparr> | None \<Rightarrow> self);
          self = (case search_group tagline_pat text of
                    Some v \<Rightarrow> self\<lparr>tagline := v\<rparr> | None \<Rightarrow> self);
          self = (case search_group title_pat text of
                    Some v \<Rightarrow> self\<lparr>meta_title := v\<rparr> | None \<Rightarrow> self);
          self = (case search_group (meta_pat desc_attr) text of
                    Some v \<Rightarrow> self\<lparr>meta_desc := v\<rparr> | None \<Rightarrow> self);
          self = (case search_group (meta_pat keywords_attr) text of
                    Some v \<Rightarrow> self\<lparr>meta_keywords := v\<rparr> | None \<Rightarrow> self);
          self = (case search_group (meta_pat og_attr) text of
                    Some v \<Rightarrow> self\<lparr>og_image := v\<rparr> | None \<Rightarrow> self);
          self = (case search_group (meta_pat twitter_attr) text of
                    Some v \<Rightarrow> self\<lparr>twitter_image := v\<rparr> | None \<Rightarrow> self)
      in (case search_group cpab_pat text of
            Some g \<Rightarrow> load_settings L g self | None \<Rightarrow> self))"

text \<open>The array literal: the marker, and the codec on what it captures between brackets.\<close>

definition load_apps :: "libs \<Rightarrow> string \<Rightarrow> exn + pyval" where
  "load_apps L text =
     (case search_group apps_pat text of
        Some g \<Rightarrow> js_apps_to_python L (''['' @ g @ '']'')
      | None \<Rightarrow> Inr (PList []))"

text \<open>
  \<^verbatim>\<open>load\<close> returns the object as it has updated it, or the exception it raises: a file
  that does not exist, or an array literal that \<^verbatim>\<open>js_apps_to_python\<close> cannot decode.
\<close>

definition load :: "libs \<Rightarrow> files \<Rightarrow> string \<Rightarrow> lpdata \<Rightarrow> exn + lpdata" where
  "load L fs path self =
     (case fs path of
        None \<Rightarrow> Inl (FileNotFoundError (path @ '' not found in current folder.''))
      | Some text \<Rightarrow>
          (let self = load_fields L text self
           in bind_exn (load_apps L text) (\<lambda>v. Inr (self\<lparr>apps := v\<rparr>))))"

subsection \<open>\<^verbatim>\<open>LPData.save\<close>\<close>

text \<open>\<^verbatim>\<open>int(s)\<close> on a string: white space around an optional sign and decimal digits, where
  single underscores may separate digits.\<close>

definition int_space :: "char \<Rightarrow> bool" where
  "int_space c = ((CHR 0x09 \<le> c \<and> c \<le> CHR 0x0D) \<or> c = CHR 0x20 \<or> c = CHR 0x85 \<or> c = CHR 0xA0)"

fun digits_ok :: "bool \<Rightarrow> string \<Rightarrow> bool" where
  "digits_ok prev [] = prev"
| "digits_ok prev (c # cs) =
     (if is_digit c then digits_ok True cs
      else if c = CHR ''_'' \<and> prev then digits_ok False cs
      else False)"

definition int_literal :: "string \<Rightarrow> int option" where
  "int_literal ds = (if digits_ok False ds then Some (int (digits_val 0 (filter is_digit ds))) else None)"

definition py_int :: "string \<Rightarrow> exn + int" where
  "py_int s =
     (let t = rev (dropWhile int_space (rev (dropWhile int_space s)));
          r = (case t of
                 [] \<Rightarrow> None
               | c # cs \<Rightarrow> if c = CHR ''-'' then map_option uminus (int_literal cs)
                           else if c = CHR ''+'' then int_literal cs
                           else int_literal t)
      in case r of
           Some k \<Rightarrow> Inr k
         | None \<Rightarrow> Inl (ValueError (''invalid literal for int() with base 10: '' @ repr_str s)))"

text \<open>\<^verbatim>\<open>json.dumps\<close> of a string, and of the two-key settings object.\<close>

definition json_escape :: "char \<Rightarrow> string" where
  "json_escape c =
     (if c = dquote \<or> c = bslash then [bslash, c]
      else if c = CHR 0x0A then [bslash, CHR ''n'']
      else if c = CHR 0x0D then [bslash, CHR ''r'']
      else if c = CHR 0x09 then [bslash, CHR ''t'']
      else if c = CHR 0x08 then [bslash, CHR ''b'']
      else if c = CHR 0x0C then [bslash, CHR ''f'']
      else if c < CHR 0x20 \<or> CHR 0x7E < c
      then [bslash, CHR ''u'', CHR ''0'', CHR ''0'', hex_char (of_char c div 16), hex_char (of_char c mod 16)]
      else [c])"

definition json_string :: "string \<Rightarrow> string" where
  "json_string s = [dquote] @ concat (map json_escape s) @ [dquote]"

definition dumps_settings :: "int \<Rightarrow> string \<Rightarrow> string" where
  \<open>dumps_settings it key = ''{"it": '' @ show_int it @ '', "key": '' @ json_string key @ ''}''\<close>

text \<open>The patterns of \<^verbatim>\<open>save\<close>: three groups, the value in the middle.\<close>

text \<open>\<^verbatim>\<open>(<img\s+class="logo"\s+src=")([^"]+)(")\<close>\<close>

definition logo_save_pat :: "ritem list" where
  \<open>logo_save_pat = [GOpen, Lit ''<img'', Plus Space, Lit ''class="logo"'', Plus Space,
     Lit ''src="'', GClose, GOpen, Plus NotQuote, GClose, GOpen, Lit ''"'', GClose]\<close>

text \<open>\<^verbatim>\<open>(<h1>)(.*?)(</h1>)\<close> with \<^verbatim>\<open>re.DOTALL\<close>\<close>

definition h1_save_pat :: "ritem list" where
  "h1_save_pat = [GOpen, Lit ''<h1>'', GClose, GOpen, Lazy DotAll, GClose,
     GOpen, Lit ''</h1>'', GClose]"

text \<open>\<^verbatim>\<open>(<p\s+class="tagline">)(.*?)(</p>)\<close> with \<^verbatim>\<open>re.DOTALL\<close>\<close>

definition tagline_save_pat :: "ritem list" where
  \<open>tagline_save_pat = [GOpen, Lit ''<p'', Plus Space, Lit ''class="tagline">'', GClose,
     GOpen, Lazy DotAll, GClose, GOpen, Lit ''</p>'', GClose]\<close>

text \<open>\<^verbatim>\<open>(<title>)(.*?)(</title>)\<close> with \<^verbatim>\<open>re.DOTALL\<close>\<close>

definition title_save_pat :: "ritem list" where
  "title_save_pat = [GOpen, Lit ''<title>'', GClose, GOpen, Lazy DotAll, GClose,
     GOpen, Lit ''</title>'', GClose]"

text \<open>\<^verbatim>\<open>(<meta\s+ATTR="VALUE"\s+content=")(.*?)(")\<close>, without \<^verbatim>\<open>re.DOTALL\<close>\<close>

definition meta_save_pat :: "string \<Rightarrow> ritem list" where
  \<open>meta_save_pat attr = [GOpen, Lit ''<meta'', Plus Space, Lit attr, Plus Space,
     Lit ''content="'', GClose, GOpen, Lazy Dot, GClose, GOpen, Lit ''"'', GClose]\<close>

text \<open>\<^verbatim>\<open>(var\s+CPABUILDSETTINGS\s*=\s*)({.*?})(\s*;)\<close> with \<^verbatim>\<open>re.DOTALL\<close>\<close>

definition cpab_save_pat :: "ritem list" where
  "cpab_save_pat = [GOpen, Lit ''var'', Plus Space, Lit ''CPABUILDSETTINGS'', Star Space,
     Lit ''='', Star Space, GClose, GOpen, Lit ''{'', Lazy DotAll, Lit ''}'', GClose,
     GOpen, Star Space, Lit '';'', GClose]"

text \<open>The replacement \<^verbatim>\<open>rf'\1{value}\3'\<close>: the value is pasted into the template as it is.\<close>

definition repl13 :: "string \<Rightarrow> string" where
  "repl13 v = [bslash, CHR ''1''] @ v @ [bslash, CHR ''3'']"

text \<open>One of the four guarded substitutions: \<^verbatim>\<open>if self.meta_desc: html = re.sub(...)\<close>.\<close>

definition sub_meta :: "string \<Rightarrow> string \<Rightarrow> string \<Rightarrow> exn + string" where
  "sub_meta attr v text = (if v \<noteq> [] then re_sub (meta_save_pat attr) (repl13 v) text else Inr text)"

text \<open>\<^verbatim>\<open>int(self.cpab_it or 0)\<close> and the settings substitution.\<close>

definition cpab_int :: "string \<Rightarrow> exn + int" where
  "cpab_int it = (if it = [] then Inr 0 else py_int it)"

definition sub_cpab :: "string \<Rightarrow> string \<Rightarrow> string \<Rightarrow> exn + string" where
  "sub_cpab it key text =
     bind_exn (cpab_int it) (\<lambda>n. re_sub cpab_save_pat (repl13 (dumps_settings n key)) text)"

definition sub_apps :: "pyval \<Rightarrow> string \<Rightarrow> exn + string" where
  "sub_apps as text =
     bind_exn (python_apps_to_js as) (\<lambda>new_apps_js. re_sub apps_pat new_apps_js text)"

text \<open>The text that \<^verbatim>\<open>save\<close> computes before it writes.\<close>

definition save_text :: "lpdata \<Rightarrow> exn + string" where
  "save_text self =
     bind_exn (re_sub logo_save_pat (repl13 (logo_src self)) (html self)) (\<lambda>t.
     bind_exn (re_sub h1_save_pat (repl13 (h1_title self)) t) (\<lambda>t.
     bind_exn (re_sub tagline_save_pat (repl13 (tagline self)) t) (\<lambda>t.
     bind_exn (re_sub title_save_pat (repl13 (meta_title self)) t) (\<lambda>t.
     bind_exn (sub_meta desc_attr (meta_desc self) t) (\<lambda>t.
     bind_exn (sub_meta keywords_attr (meta_keywords self) t) (\<lambda>t.
     bind_exn (sub_meta og_attr (og_image self) t) (\<lambda>t.
     bind_exn (sub_meta twitter_attr (twitter_image self) t) (\<lambda>t.
     bind_exn (sub_cpab (cpab_it self) (cpab_key self) t) (\<lambda>t.
     sub_apps (apps self) t)))))))))"

text \<open>
  \<^verbatim>\<open>write_file\<close> opens the file for writing, which empties it, and then writes. The
  operating system can make either step fail: \<open>OpenFails\<close> is a file that cannot be opened
  (the file is left as it was), \<open>WriteFails n\<close> a write that stops after \<open>n\<close> characters
  have reached the file.
\<close>

datatype fault = NoFault | OpenFails | WriteFails nat

fun write_file :: "fault \<Rightarrow> string \<Rightarrow> string \<Rightarrow> files \<Rightarrow> exn option \<times> files" where
  "write_file NoFault path content fs = (None, fs(path \<mapsto> content))"
| "write_file OpenFails path content fs = (Some (OSError ''cannot open file''), fs)"
| "write_file (WriteFails n) path content fs =
     (Some (OSError ''cannot write file''), fs(path \<mapsto> take n content))"

text \<open>\<^verbatim>\<open>save\<close>: the exception raised if any, the object, and the files afterwards.\<close>

definition save :: "fault \<Rightarrow> lpdata \<Rightarrow> string \<Rightarrow> files \<Rightarrow> exn option \<times> lpdata \<times> files" where
  "save ft self path fs =
     (case save_text self of
        Inl e \<Rightarrow> (Some e, self, fs)
      | Inr t \<Rightarrow>
          (case write_file ft path t fs of
             (Some e, fs') \<Rightarrow> (Some e, self, fs')
           | (None, fs') \<Rightarrow> (None, self\<lparr>html := t\<rparr>, fs')))"

subsection \<open>\<^verbatim>\<open>main\<close>\<close>

text \<open>
  \<^verbatim>\<open>main\<close> loads \<^verbatim>\<open>index.html\<close> into a fresh \<^verbatim>\<open>LPData\<close>. On any exception it shows
  the message and returns; otherwise it opens the editor on the loaded data.
\<close>

datatype session = Aborted string | Editing lpdata

definition main :: "libs \<Rightarrow> files \<Rightarrow> session" where
  "main L fs = (case load L fs INDEX_FILE LPData_init of
     Inl e \<Rightarrow> Aborted (exn_str e) | Inr lp \<Rightarrow> Editing lp)"

section \<open>Records as the specification describes them\<close>

text \<open>
  A Record of the specification, and the dict that the editing dialog (\<^verbatim>\<open>AppDialog.ok\<close>)
  builds for it.
\<close>

record app_record =
  r_name :: string
  r_icon :: string
  r_locker_id :: string
  r_platforms :: "string list"
  r_trending :: bool
  r_featured :: bool

definition app_dict :: "app_record \<Rightarrow> pyval" where
  "app_dict r = PDict [(''name'', PStr (r_name r)), (''icon'', PStr (r_icon r)),
     (''locker_id'', PStr (r_locker_id r)), (''platforms'', PList (map PStr (r_platforms r))),
     (''trending'', PBool (r_trending r)), (''featured'', PBool (r_featured r))]"

text \<open>
  The encoding as the specification words it: a \<^verbatim>\<open>const APPS = [ ... ];\<close> declaration with
  one object per record, the fields in the order name, icon, locker_id, platforms, trending,
  featured, strings between double quotes with no escaping, platforms as a bracketed
  comma-separated list of double-quoted strings, booleans as bare \<^verbatim>\<open>true\<close> and \<^verbatim>\<open>false\<close>.
\<close>

definition quoted :: "string \<Rightarrow> string" where
  "quoted s = [dquote] @ s @ [dquote]"

definition spec_bool :: "bool \<Rightarrow> string" where
  "spec_bool b = (if b then ''true'' else ''false'')"

definition spec_array :: "string list \<Rightarrow> string" where
  "spec_array ps = ''['' @ join '', '' (map quoted ps) @ '']''"

definition spec_object :: "app_record \<Rightarrow> string" where
  "spec_object r =
     ''  {'' @ [newline] @
     ''    name: '' @ quoted (r_name r) @ '','' @ [newline] @
     ''    icon: '' @ quoted (r_icon r) @ '','' @ [newline] @
     ''    locker_id: '' @ quoted (r_locker_id r) @ '','' @ [newline] @
     ''    platforms: '' @ spec_array (r_platforms r) @ '','' @ [newline] @
     ''    trending: '' @ spec_bool (r_trending r) @ '','' @ [newline] @
     ''    featured: '' @ spec_bool (r_featured r) @ [newline] @
     ''  },''"

definition spec_encode :: "app_record list \<Rightarrow> string" where
  "spec_encode rs = ''const APPS = ['' @ concat (map (\<lambda>r. [newline] @ spec_object r) rs) @ [newline] @ ''];''"

text \<open>The lines of one record, as the loop of the encoder appends them.\<close>

definition record_lines :: "app_record \<Rightarrow> string list" where
  "record_lines r = [''  {'',
     ''    name: '' @ quoted (r_name r) @ '','',
     ''    icon: '' @ quoted (r_icon r) @ '','',
     ''    locker_id: '' @ quoted (r_locker_id r) @ '','',
     ''    platforms: '' @ spec_array (r_platforms r) @ '','',
     ''    trending: '' @ spec_bool (r_trending r) @ '','',
     ''    featured: '' @ spec_bool (r_featured r),
     ''  },'']"



section \<open>Concrete runs\<close>

text \<open>
  The runs below are without the \<^verbatim>\<open>json5\<close> package, so that \<^verbatim>\<open>js_apps_to_python\<close> takes
  its fallback, with \<open>literal_eval\<close> for \<^verbatim>\<open>eval\<close>. The only settings object they load is
  \<^verbatim>\<open>{it: "7", key: "abc"}\<close>, which \<^verbatim>\<open>json.loads\<close> rejects for its unquoted keys;
  \<open>no_json_loads\<close>, which rejects every text, stands for \<^verbatim>\<open>json.loads\<close> there.
\<close>

definition no_json_loads :: "string \<Rightarrow> exn + pyval" where
  "no_json_loads s = Inl (ValueError ''Expecting value'')"

definition fallback_libs :: libs where
  "fallback_libs = \<lparr>json5_loads = None, py_eval = literal_eval, json_loads = no_json_loads\<rparr>"

definition broken_doc :: string where
  "broken_doc = ''const APPS = [{];''"


section \<open>Properties of the encoder\<close>

lemma join_lines: "join [c] (a # xs @ [b]) = a @ concat (map (\<lambda>x. c # x) xs) @ c # b"
  by (induction xs arbitrary: a) simp_all

lemma py_list_strs: "py_list (PList (map PStr ps)) = Inr (spec_array ps)"
  by (simp add: py_list_def spec_array_def quoted_def [abs_def] comp_def)

lemma app_lines_dict: "app_lines (app_dict r) = Inr (record_lines r)"
  by (simp add: app_lines_def app_dict_def py_list_strs record_lines_def quoted_def py_bool_def spec_bool_def)

lemma apps_lines_dicts: "apps_lines (map app_dict rs) = Inr (concat (map record_lines rs))"
  by (induction rs) (simp_all add: app_lines_dict)

lemma record_lines_text: "concat (map (\<lambda>x. newline # x) (record_lines r)) = newline # spec_object r"
  by (simp add: record_lines_def spec_object_def)

lemma concat_lines: "concat (map (\<lambda>x. newline # x) (concat (map record_lines rs))) = concat (map (\<lambda>r. newline # spec_object r) rs)"
  by (induction rs) (simp_all add: record_lines_text del: append.simps)

text \<open>
  Claim C9. For every sequence of Records, \<^verbatim>\<open>python_apps_to_js\<close> returns the text of
  \<open>spec_encode\<close>: the declaration \<^verbatim>\<open>const APPS = [\<close> ... \<^verbatim>\<open>];\<close> around one object per
  record, in the order of the sequence, each with its fields in the fixed order, strings
  between double quotes and unescaped, platforms as a bracketed list of quoted strings
  separated by commas, booleans as bare \<^verbatim>\<open>true\<close> or \<^verbatim>\<open>false\<close>.
\<close>

theorem encode_format: "python_apps_to_js (PList (map app_dict rs)) = Inr (spec_encode rs)"
  by (simp add: python_apps_to_js_def apps_lines_dicts join_lines concat_lines spec_encode_def)

section \<open>Replacement templates and substitution\<close>

lemma parse_plain:
  "bslash \<notin> set s \<Longrightarrow> parse_template g TNormal r = Inr ps \<Longrightarrow>
   parse_template g TNormal (s @ r) = Inr (map (\<lambda>c. TLit [c]) s @ ps)"
proof (induction s)
  case Nil
  then show ?case by simp
next
  case (Cons c s)
  then have c: "c \<noteq> bslash" and ih: "parse_template g TNormal (s @ r) = Inr (map (\<lambda>c. TLit [c]) s @ ps)"
    by auto
  show ?case
  proof (cases "s @ r")
    case Nil
    with ih c show ?thesis by simp
  next
    case (Cons d t)
    with ih c show ?thesis by (simp add: tcons_def)
  qed
qed

lemma parse_group3: "3 \<le> g \<Longrightarrow> parse_template g TNormal [bslash, CHR ''3''] = Inr [TGroup 3]"
  by (simp add: bslash_def is_digit_def group_ref_def tcons_def digit_val_def)

lemma parse_repl13:
  assumes "3 \<le> g" "bslash \<notin> set v" "v = [] \<or> \<not> is_digit (hd v)"
  shows "parse_template g TNormal (repl13 v) = Inr (TGroup 1 # map (\<lambda>c. TLit [c]) v @ [TGroup 3])"
proof -
  have rest: "parse_template g TNormal (v @ [bslash, CHR ''3'']) = Inr (map (\<lambda>c. TLit [c]) v @ [TGroup 3])"
    using parse_plain [OF assms(2) parse_group3 [OF assms(1)]] .
  obtain e t where et: "v @ [bslash, CHR ''3''] = e # t" by (cases v) auto
  have e: "\<not> is_digit e"
    using assms(3) et by (cases v) (auto simp: is_digit_def bslash_def)
  have one: "is_digit (CHR ''1'')"
    by (simp add: is_digit_def)
  have "parse_template g TNormal (bslash # CHR ''1'' # e # t) =
     tcons (group_ref g 1) (parse_template g TNormal (e # t))"
    using e one by (simp add: digit_val_def)
  with rest et assms(1) show ?thesis
    by (simp add: repl13_def group_ref_def tcons_def)
qed

lemma expand_lits: "expand (map (\<lambda>c. TLit [c]) v @ ps) text m = v @ expand ps text m"
  by (induction v) simp_all

lemma expand_repl13:
  "expand (TGroup 1 # map (\<lambda>c. TLit [c]) v @ [TGroup 3]) text m = group text m 1 @ v @ group text m 3"
  by (simp add: expand_lits)

lemma sub_from_no_match:
  "search_from p text prev s i = None \<Longrightarrow> sub_from p f text prev s i = s"
  by (induction s arbitrary: prev i) (auto split: option.splits)

lemma re_sub_fn_no_match: "re_search p text = None \<Longrightarrow> re_sub_fn p f text = text"
  by (simp add: re_search_def re_sub_fn_def sub_from_no_match)

lemma ngroups_save_pats:
  "ngroups logo_save_pat = 3" "ngroups h1_save_pat = 3" "ngroups tagline_save_pat = 3"
  "ngroups title_save_pat = 3" "ngroups (meta_save_pat attr) = 3"
  by (simp_all add: ngroups_def logo_save_pat_def h1_save_pat_def tagline_save_pat_def
        title_save_pat_def meta_save_pat_def)

lemma re_sub_repl13:
  assumes "ngroups p = 3" "bslash \<notin> set v" "v = [] \<or> \<not> is_digit (hd v)"
  shows "re_sub p (repl13 v) doc = Inr (sub_from p (\<lambda>m. group doc m 1 @ v @ group doc m 3) doc None doc 0)"
proof -
  have "parse_template 3 TNormal (repl13 v) = Inr (TGroup 1 # map (\<lambda>c. TLit [c]) v @ [TGroup 3])"
    using assms by (intro parse_repl13) simp_all
  moreover have "expand (TGroup 1 # map (\<lambda>c. TLit [c]) v @ [TGroup 3]) doc =
      (\<lambda>m. group doc m 1 @ v @ group doc m 3)"
    by (rule ext) (simp only: expand_repl13)
  ultimately show ?thesis using assms(1) by (simp add: re_sub_def)
qed

lemma absent_marker_value_dropped:
  assumes "ngroups p = 3" "re_search p doc = None" "bslash \<notin> set v" "v = [] \<or> \<not> is_digit (hd v)"
  shows "re_sub p (repl13 v) doc = Inr doc"
  using assms(2) re_sub_repl13 [OF assms(1,3,4), of doc]
  by (simp add: re_search_def sub_from_no_match)

lemma absent_meta_value_dropped:
  assumes "re_search (meta_save_pat attr) doc = None" "bslash \<notin> set v" "v = [] \<or> \<not> is_digit (hd v)"
  shows "sub_meta attr v doc = Inr doc"
  using absent_marker_value_dropped [OF ngroups_save_pats(5) assms] by (simp add: sub_meta_def)

section \<open>The settings object on save\<close>















text \<open>
  The example of the specification, loaded and saved: the sub-pattern for \<^verbatim>\<open>it\<close> wants
  digits after the colon and does not match the quoted \<^verbatim>\<open>"7"\<close>, so the stored value stays
  empty and the settings object is saved with 0.
\<close>

lemma settings_example_saved_with_zero:
  \<open>bind_exn (load fallback_libs [INDEX_FILE \<mapsto> ''var CPABUILDSETTINGS = {it: "7", key: "abc"};'']
       INDEX_FILE LPData_init) save_text
     = Inr ''var CPABUILDSETTINGS = {"it": 0, "key": "abc"};''\<close>
  by code_simp

section \<open>An array literal that cannot be decoded\<close>

text \<open>
  Claim C5, as amended. When the document has the array marker, \<^verbatim>\<open>json5\<close> is missing or
  fails on the captured literal, and \<^verbatim>\<open>eval\<close> raises \<open>e\<close> on its normalised text, then
  decoding raises a \<^verbatim>\<open>ValueError\<close> whose message ends with the text of \<open>e\<close>, the underlying
  cause; \<^verbatim>\<open>load\<close> raises the same exception, and \<^verbatim>\<open>main\<close> shows that message and ends:
  no editing session is opened.
\<close>

theorem undecodable_array_aborts:
  assumes "fs INDEX_FILE = Some doc"
    and "search_group apps_pat doc = Some g"
    and "case json5_loads L of None \<Rightarrow> True | Some loads \<Rightarrow> isl (loads (''['' @ g @ '']''))"
    and "py_eval L (normalise (''['' @ g @ '']'')) = Inl e"
  shows "js_apps_to_python L (''['' @ g @ '']'') = Inl (ValueError (parse_error_prefix @ exn_str e))
    \<and> load L fs INDEX_FILE LPData_init = Inl (ValueError (parse_error_prefix @ exn_str e))
    \<and> main L fs = Aborted (parse_error_prefix @ exn_str e)"
proof -
  have d: "js_apps_to_python L (''['' @ g @ '']'') = Inl (ValueError (parse_error_prefix @ exn_str e))"
    using assms(3,4) by (auto simp: js_apps_to_python_def isl_def split: option.splits sum.splits)
  then have l: "load L fs INDEX_FILE LPData_init = Inl (ValueError (parse_error_prefix @ exn_str e))"
    using assms(1,2) by (simp add: load_def load_apps_def Let_def)
  then show ?thesis using d by (simp add: main_def)
qed

text \<open>The theorem at a document whose array literal is \<^verbatim>\<open>[{]\<close>.\<close>

theorem undecodable_array_aborts_witness:
  "[INDEX_FILE \<mapsto> broken_doc] INDEX_FILE = Some broken_doc
   \<and> search_group apps_pat broken_doc = Some ''{''
   \<and> (case json5_loads fallback_libs of None \<Rightarrow> True | Some loads \<Rightarrow> isl (loads (''['' @ ''{'' @ '']'')))
   \<and> py_eval fallback_libs (normalise (''['' @ ''{'' @ '']'')) = Inl (SyntaxError ''invalid syntax'')
   \<and> main fallback_libs [INDEX_FILE \<mapsto> broken_doc] = Aborted (parse_error_prefix @ ''invalid syntax'')"
proof -
  have h1: "[INDEX_FILE \<mapsto> broken_doc] INDEX_FILE = Some broken_doc" by simp
  have h2: "search_group apps_pat broken_doc = Some ''{''" by code_simp
  have h3: "case json5_loads fallback_libs of None \<Rightarrow> True | Some loads \<Rightarrow> isl (loads (''['' @ ''{'' @ '']''))"
    by (simp add: fallback_libs_def)
  have h4: "py_eval fallback_libs (normalise (''['' @ ''{'' @ '']'')) = Inl (SyntaxError ''invalid syntax'')"
    by code_simp
  from undecodable_array_aborts [of "[INDEX_FILE \<mapsto> broken_doc]" broken_doc "''{''"
      fallback_libs "SyntaxError ''invalid syntax''"] h1 h2 h3 h4
  show ?thesis by simp
qed

text \<open>
  Claim C5 as stated fails: on that document the session does not go on with an empty
  record list; \<^verbatim>\<open>main\<close> has returned.
\<close>

theorem undecodable_array_no_empty_session:
  "main fallback_libs [INDEX_FILE \<mapsto> ''const APPS = [{];'']
     \<noteq> Editing (LPData_init\<lparr>html := ''const APPS = [{];'', apps := PList []\<rparr>)"
  by code_simp

section \<open>A write that fails\<close>

text \<open>
  Claim C8, as amended. When \<^verbatim>\<open>save\<close> raises, the object is unchanged, so the document in
  memory is the one before the save. The files are unchanged when the exception comes before
  the file is opened or from opening it; when it comes from writing, the destination holds
  the first \<open>n\<close> characters of the new text, since opening the file has emptied it.
\<close>

theorem failed_save_effects:
  assumes "save ft self path fs = (Some e, self', fs')"
  shows "self' = self \<and>
    (fs' = fs \<or> (\<exists>t n. save_text self = Inr t \<and> ft = WriteFails n \<and> fs' = fs(path \<mapsto> take n t)))"
  using assms by (cases ft) (auto simp: save_def split: sum.splits)

text \<open>The theorem at a write that stops after three characters.\<close>

theorem failed_save_effects_witness:
  "save (WriteFails 3) (LPData_init\<lparr>html := ''<p>new</p>''\<rparr>) INDEX_FILE [INDEX_FILE \<mapsto> ''<p>old</p>'']
     = (Some (OSError ''cannot write file''), LPData_init\<lparr>html := ''<p>new</p>''\<rparr>, [INDEX_FILE \<mapsto> ''<p>''])
   \<and> ([INDEX_FILE \<mapsto> ''<p>''] = [INDEX_FILE \<mapsto> ''<p>old</p>''] \<or>
        (\<exists>t n. save_text (LPData_init\<lparr>html := ''<p>new</p>''\<rparr>) = Inr t \<and> WriteFails 3 = WriteFails n
           \<and> [INDEX_FILE \<mapsto> ''<p>''] = [INDEX_FILE \<mapsto> ''<p>old</p>''](INDEX_FILE \<mapsto> take n t)))"
proof -
  have t: "save_text (LPData_init\<lparr>html := ''<p>new</p>''\<rparr>) = Inr ''<p>new</p>''" by code_simp
  have s: "save (WriteFails 3) (LPData_init\<lparr>html := ''<p>new</p>''\<rparr>) INDEX_FILE [INDEX_FILE \<mapsto> ''<p>old</p>'']
     = (Some (OSError ''cannot write file''), LPData_init\<lparr>html := ''<p>new</p>''\<rparr>, [INDEX_FILE \<mapsto> ''<p>''])"
    by (simp add: save_def t)
  from failed_save_effects [OF s] s show ?thesis by simp
qed

text \<open>
  Claim C8 as stated fails: after that failed write the destination file holds \<^verbatim>\<open><p>\<close>,
  neither the original \<^verbatim>\<open><p>old</p>\<close> nor the new text.
\<close>

theorem failed_write_truncates:
  "snd (snd (save (WriteFails 3) (LPData_init\<lparr>html := ''<p>new</p>''\<rparr>) INDEX_FILE [INDEX_FILE \<mapsto> ''<p>old</p>''])) INDEX_FILE
     = Some ''<p>''"
proof -
  have t: "save_text (LPData_init\<lparr>html := ''<p>new</p>''\<rparr>) = Inr ''<p>new</p>''" by code_simp
  show ?thesis by (simp add: save_def t)
qed

section \<open>Fields missing from an object\<close>




section \<open>Which fields save substitutes\<close>


section \<open>A marker that is absent\<close>

text \<open>
  A field whose marker \<^verbatim>\<open>load\<close> does not find keeps the value it had, which in the fresh
  object of \<^verbatim>\<open>main\<close> is the empty string; a missing array marker gives the empty list. On
  save, a value without backslash that does not begin with a digit is dropped when its marker
  is absent (\<open>absent_marker_value_dropped\<close>).
\<close>

lemma load_settings_keeps:
  "twitter_image (load_settings L g self) = twitter_image self"
  "og_image (load_settings L g self) = og_image self"
  "meta_keywords (load_settings L g self) = meta_keywords self"
  "meta_desc (load_settings L g self) = meta_desc self"
  "meta_title (load_settings L g self) = meta_title self"
  "tagline (load_settings L g self) = tagline self"
  "h1_title (load_settings L g self) = h1_title self"
  "logo_src (load_settings L g self) = logo_src self"
  by (simp_all add: load_settings_def Let_def split: sum.splits option.splits prod.splits)

lemma absent_marker_default:
  "search_group (meta_pat twitter_attr) doc = None \<Longrightarrow> twitter_image (load_fields L doc self) = twitter_image self"
  "search_group (meta_pat og_attr) doc = None \<Longrightarrow> og_image (load_fields L doc self) = og_image self"
  "search_group (meta_pat keywords_attr) doc = None \<Longrightarrow> meta_keywords (load_fields L doc self) = meta_keywords self"
  "search_group (meta_pat desc_attr) doc = None \<Longrightarrow> meta_desc (load_fields L doc self) = meta_desc self"
  "search_group title_pat doc = None \<Longrightarrow> meta_title (load_fields L doc self) = meta_title self"
  "search_group tagline_pat doc = None \<Longrightarrow> tagline (load_fields L doc self) = tagline self"
  "search_group h1_pat doc = None \<Longrightarrow> h1_title (load_fields L doc self) = h1_title self"
  "search_group logo_pat doc = None \<Longrightarrow> logo_src (load_fields L doc self) = logo_src self"
  by (simp_all add: load_fields_def Let_def load_settings_keeps
        option.case_distrib [of twitter_image] option.case_distrib [of og_image]
        option.case_distrib [of meta_keywords] option.case_distrib [of meta_desc]
        option.case_distrib [of meta_title] option.case_distrib [of tagline]
        option.case_distrib [of h1_title] option.case_distrib [of logo_src]
        option.case_eq_if)

lemma absent_settings_default:
  "search_group cpab_pat doc = None \<Longrightarrow>
     cpab_it (load_fields L doc self) = cpab_it self \<and> cpab_key (load_fields L doc self) = cpab_key self"
  by (simp add: load_fields_def Let_def
        option.case_distrib [of cpab_it] option.case_distrib [of cpab_key] option.case_eq_if)

lemma absent_array_default: "search_group apps_pat doc = None \<Longrightarrow> load_apps L doc = Inr (PList [])"
  by (simp add: load_apps_def)

section \<open>Values pasted into templates\<close>

text \<open>
  Claim C6 fails on the code. A document without the \<^verbatim>\<open>twitter:image\<close> marker loads with
  the empty default, but saving it with the new value \<^verbatim>\<open>7.png\<close> for that field does not
  drop the value silently: the value is pasted behind \<^verbatim>\<open>\1\<close>, the template reads as a
  reference to group 17, and \<^verbatim>\<open>re.sub\<close> raises before it looks for the marker.
\<close>

theorem absent_marker_digit_value_raises:
  \<open>bind_exn (load fallback_libs [INDEX_FILE \<mapsto> ''<title>T</title>''] INDEX_FILE LPData_init)
      (\<lambda>lp. Inr (twitter_image lp)) = Inr []
   \<and> bind_exn (load fallback_libs [INDEX_FILE \<mapsto> ''<title>T</title>''] INDEX_FILE LPData_init)
      (\<lambda>lp. save_text (lp\<lparr>twitter_image := ''7.png''\<rparr>)) = Inl (ReError ''invalid group reference'')\<close>
  by code_simp

text \<open>
  Claim C3 fails on the code, by the same defect. A document whose heading is
  \<^verbatim>\<open>7 wonders\<close> loads, and saving what was loaded raises. With the heading \<^verbatim>\<open>23 things\<close>
  the save succeeds and the document comes back changed: \<^verbatim>\<open>\123\<close> is read as the octal
  escape of the letter S, which replaces the opening tag and the digits.
\<close>

theorem load_save_digit_title:
  \<open>bind_exn (load fallback_libs [INDEX_FILE \<mapsto> ''<h1>7 wonders</h1>''] INDEX_FILE LPData_init) save_text
     = Inl (ReError ''invalid group reference'')
   \<and> bind_exn (load fallback_libs [INDEX_FILE \<mapsto> ''<h1>23 things</h1>''] INDEX_FILE LPData_init) save_text
     = Inr ''S things</h1>''\<close>
  by code_simp

section \<open>The fallback decoder\<close>

text \<open>
  Claim C1 fails on the code. The fallback hands the normalised text to \<^verbatim>\<open>eval\<close>, which
  evaluates expressions, not only literals: here it evaluates the operator \<^verbatim>\<open>+\<close>.
\<close>

theorem fallback_evaluates_operator:
  \<open>js_apps_to_python fallback_libs ''[{name: "a" + "b"}]'' = Inr (PList [PDict [(''name'', PStr ''ab'')]])\<close>
  by code_simp

text \<open>
  Claim C2 fails on the code when \<^verbatim>\<open>json5\<close> is not installed. The record named
  \<^verbatim>\<open>true\<close> has no double quote, backslash or newline in its strings; encoded, located as
  \<^verbatim>\<open>load\<close> locates the array and decoded through the fallback, it comes back named
  \<^verbatim>\<open>True\<close>, because the normalisation pass rewrites the word inside the string. A record
  whose icon is the address \<^verbatim>\<open>https://x/i.png\<close> does not come back at all: the pass puts
  quotes around \<^verbatim>\<open>https\<close>, and decoding raises.
\<close>

theorem roundtrip_fallback_changes_name:
  \<open>bind_exn (python_apps_to_js (PList [app_dict \<lparr>r_name = ''true'', r_icon = '''', r_locker_id = '''',
       r_platforms = [], r_trending = False, r_featured = False\<rparr>]))
     (load_apps fallback_libs)
   = Inr (PList [app_dict \<lparr>r_name = ''True'', r_icon = '''', r_locker_id = '''',
       r_platforms = [], r_trending = False, r_featured = False\<rparr>])
   \<and> isl (bind_exn (python_apps_to_js (PList [app_dict \<lparr>r_name = ''A'', r_icon = ''https://x/i.png'',
       r_locker_id = '''', r_platforms = [], r_trending = False, r_featured = False\<rparr>]))
     (load_apps fallback_libs))\<close>
  by code_simp

end
